theory Spec2Isabelle
  imports Complex_Main "HOL-Library.Sublist"
begin

section \<open>Text and numbers as the interpreter has them\<close>

text \<open>
  A Python \<open>str\<close> is a sequence of Unicode code points, and slicing and
  \<open>startswith\<close> count code points. The message contains characters beyond
  Latin-1 (the two weather emoji), so text is a list of code points here; \<open>ascii\<close>
  embeds an ASCII literal.
\<close>

type_synonym pystr = "nat list"

definition ascii :: "string \<Rightarrow> pystr" where
  "ascii s = map of_char s"

definition NL :: pystr where
  "NL = [10]"

definition DEGREE :: pystr where
  "DEGREE = [176]"

text \<open>U+1F326 U+FE0F (sun behind rain cloud) and U+2600 U+FE0F (sun).\<close>

definition RAIN_EMOJI :: pystr where
  "RAIN_EMOJI = [127782, 65039]"

definition SUN_EMOJI :: pystr where
  "SUN_EMOJI = [9728, 65039]"

text \<open>\<open>s.startswith(p)\<close> and \<open>s[a:b]\<close> for constant bounds \<open>0 \<le> a \<le> b\<close>.\<close>

definition startswith :: "pystr \<Rightarrow> pystr \<Rightarrow> bool" where
  "startswith s p = prefix p s"

definition slice :: "nat \<Rightarrow> nat \<Rightarrow> 'a list \<Rightarrow> 'a list" where
  "slice a b s = take (b - a) (drop a s)"

text \<open>
  \<open>int(s)\<close> on a string, base ten: surrounding whitespace is stripped, one sign is
  allowed, then digits, with single underscores allowed between digits. \<open>None\<close>
  stands for \<open>ValueError\<close>. Only ASCII whitespace and ASCII digits are accepted
  here; on such input the result is the interpreter's.
\<close>

definition is_space :: "nat \<Rightarrow> bool" where
  "is_space c = (c = 32 \<or> (9 \<le> c \<and> c \<le> 13))"

definition is_digit :: "nat \<Rightarrow> bool" where
  "is_digit c = (48 \<le> c \<and> c \<le> 57)"

definition strip :: "pystr \<Rightarrow> pystr" where
  "strip s = rev (dropWhile is_space (rev (dropWhile is_space s)))"

fun digits_ok :: "pystr \<Rightarrow> bool" where
  "digits_ok [] = False"
| "digits_ok [c] = is_digit c"
| "digits_ok (c # d # cs) =
     (is_digit c \<and> (if d = 95 then digits_ok cs else digits_ok (d # cs)))"

definition digits_val :: "pystr \<Rightarrow> int" where
  "digits_val ds = foldl (\<lambda>a c. 10 * a + int (c - 48)) 0 (filter (\<lambda>c. c \<noteq> 95) ds)"

definition py_int :: "pystr \<Rightarrow> int option" where
  "py_int s =
     (let b = strip s;
          neg = (case b of [] \<Rightarrow> False | c # _ \<Rightarrow> c = 45);
          ds = (case b of [] \<Rightarrow> [] | c # r \<Rightarrow> if c = 43 \<or> c = 45 then r else b)
      in if digits_ok ds then Some (if neg then - digits_val ds else digits_val ds)
         else None)"

text \<open>\<open>str(i)\<close> for an integer, as an f-string renders it.\<close>

fun digits :: "nat \<Rightarrow> pystr" where
  "digits n = (if n < 10 then [48 + n] else digits (n div 10) @ [48 + n mod 10])"

declare digits.simps [simp del]

definition str_int :: "int \<Rightarrow> pystr" where
  "str_int i = (if i < 0 then 45 # digits (nat (- i)) else digits (nat i))"

text \<open>
  \<open>round(x)\<close> with one argument returns the integer nearest to the exact value
  of \<open>x\<close>, a tie going to the even neighbour; on an integer it is the identity.
  Every finite float is a rational, so the API's numbers are rationals here.
\<close>

definition py_round :: "rat \<Rightarrow> int" where
  "py_round x =
     (let f = \<lfloor>x\<rfloor>; d = x - of_int f
      in if d < 1 / 2 then f
         else if 1 / 2 < d then f + 1
         else if even f then f else f + 1)"

section \<open>Data model\<close>

text \<open>
  The exceptions that can leave the functions below. \<open>FetchError\<close> stands for
  whatever \<open>requests.get\<close> or \<open>r.json()\<close> raises, \<open>DeliveryError\<close> for
  whatever \<open>bot.send_message\<close> raises; both derive from \<open>Exception\<close>, as
  do the three built-in ones. \<open>KeyboardInterrupt\<close> does not.
\<close>

datatype error =
  FetchError | IndexError | TypeError | ValueError | DeliveryError | KeyboardInterrupt

definition is_Exception :: "error \<Rightarrow> bool" where
  "is_Exception e = (e \<noteq> KeyboardInterrupt)"

record location =
  name :: pystr
  lat :: rat
  lon :: rat

text \<open>
  The decoded JSON body, in the shape of the forecast API's schema:
  an optional \<open>hourly\<close> object with three optional parallel arrays, whose
  numeric entries may be \<open>null\<close> (\<open>None\<close>).
\<close>

record hourly_data =
  time :: "pystr list option"
  temperature_2m :: "rat option list option"
  precipitation_probability :: "rat option list option"

record response =
  hourly :: "hourly_data option"

text \<open>The outside world as one fetch sees it: the result of the GET for a coordinate pair.\<close>

type_synonym web = "rat \<Rightarrow> rat \<Rightarrow> error + response"

record entry =
  entry_name :: pystr
  entry_times :: "pystr list"
  entry_temps :: "rat option list"
  entry_rains :: "rat option list"

section \<open>fetch\_weather and build\_message\<close>

definition fetch_weather :: "web \<Rightarrow> rat \<Rightarrow> rat \<Rightarrow> error + response" where
  "fetch_weather w la lo = w la lo"

text \<open>A \<open>for\<close> loop whose body may raise: the first exception ends it.\<close>

fun for_each :: "('a \<Rightarrow> 's \<Rightarrow> error + 's) \<Rightarrow> 'a list \<Rightarrow> 's \<Rightarrow> error + 's" where
  "for_each body [] s = Inr s"
| "for_each body (x # xs) s =
     (case body x s of Inl e \<Rightarrow> Inl e | Inr s' \<Rightarrow> for_each body xs s')"

text \<open>\<open>d.get(key, {})\<close> and \<open>d.get(key, [])\<close>.\<close>

definition get_hourly :: "response \<Rightarrow> hourly_data" where
  "get_hourly d = (case hourly d of
      None \<Rightarrow> \<lparr>time = None, temperature_2m = None, precipitation_probability = None\<rparr>
    | Some h \<Rightarrow> h)"

definition get_list :: "'a list option \<Rightarrow> 'a list" where
  "get_list v = (case v of None \<Rightarrow> [] | Some xs \<Rightarrow> xs)"

text \<open>
  Lines 53 to 60: the body of the loop over \<open>range(len(times))\<close> (\<open>tms\<close> is the source's \<open>times\<close>). The state is
  \<open>will_rain\<close> and the three filtered lists. \<open>rains[i]\<close> on line 59 is read
  without the length test of line 58, and compared with 30 without a test for
  \<open>None\<close>.
\<close>

definition hour_body ::
  "pystr \<Rightarrow> pystr list \<Rightarrow> rat option list \<Rightarrow> rat option list \<Rightarrow> nat \<Rightarrow>
   bool \<times> pystr list \<times> rat option list \<times> rat option list \<Rightarrow>
   error + (bool \<times> pystr list \<times> rat option list \<times> rat option list)" where
  "hour_body today_str tms temps rains i st =
     (case st of (will_rain, filtered_times, filtered_temps, filtered_rains) \<Rightarrow>
        if startswith (tms ! i) today_str then
          (case py_int (slice 11 13 (tms ! i)) of
             None \<Rightarrow> Inl ValueError
           | Some hour \<Rightarrow>
               if 8 \<le> hour \<and> hour \<le> 20 then
                 (let filtered_times' = filtered_times @ [tms ! i];
                      filtered_temps' = filtered_temps @ [if i < length temps then temps ! i else None];
                      filtered_rains' = filtered_rains @ [if i < length rains then rains ! i else None]
                  in if i < length rains then
                       (case rains ! i of
                          None \<Rightarrow> Inl TypeError
                        | Some r \<Rightarrow>
                            Inr (if 30 \<le> r then True else will_rain,
                                 filtered_times', filtered_temps', filtered_rains'))
                     else Inl IndexError)
               else Inr st)
        else Inr st)"

text \<open>Lines 40 to 67: the body of the loop over the locations.\<close>

definition location_body ::
  "web \<Rightarrow> pystr \<Rightarrow> location \<Rightarrow> bool \<times> entry list \<Rightarrow> error + (bool \<times> entry list)" where
  "location_body w today_str loc st =
     (case st of (will_rain, location_data) \<Rightarrow>
        (case fetch_weather w (lat loc) (lon loc) of
           Inl e \<Rightarrow> Inl e
         | Inr data \<Rightarrow>
             (let hourly = get_hourly data;
                  tms = get_list (time hourly);
                  temps = get_list (temperature_2m hourly);
                  rains = get_list (precipitation_probability hourly)
              in case for_each (hour_body today_str tms temps rains) [0..<length tms]
                        (will_rain, [], [], []) of
                   Inl e \<Rightarrow> Inl e
                 | Inr (will_rain', filtered_times, filtered_temps, filtered_rains) \<Rightarrow>
                     Inr (will_rain',
                          location_data @
                            [\<lparr>entry_name = name loc, entry_times = filtered_times,
                              entry_temps = filtered_temps, entry_rains = filtered_rains\<rparr>]))))"

text \<open>Lines 69 to 79: the emoji and the rendering loops.\<close>

definition weather_emoji :: "bool \<Rightarrow> pystr" where
  "weather_emoji will_rain = (if will_rain then RAIN_EMOJI else SUN_EMOJI)"

definition fmt_value :: "rat option \<Rightarrow> pystr" where
  "fmt_value v = (case v of None \<Rightarrow> ascii ''N/A'' | Some x \<Rightarrow> str_int (py_round x))"

definition line_body :: "entry \<Rightarrow> nat \<Rightarrow> pystr \<Rightarrow> error + pystr" where
  "line_body loc i msg =
     (let time_str = slice 11 16 (entry_times loc ! i)
      in if i < length (entry_temps loc) then
           (let temp = fmt_value (entry_temps loc ! i)
            in if i < length (entry_rains loc) then
                 (let rain = fmt_value (entry_rains loc ! i)
                  in Inr (msg @ time_str @ ascii '' - '' @ temp @ DEGREE @ ascii ''C, '' @
                          rain @ ascii ''%'' @ NL))
               else Inl IndexError)
         else Inl IndexError)"

definition block_body :: "entry \<Rightarrow> pystr \<Rightarrow> error + pystr" where
  "block_body loc msg =
     (case for_each (line_body loc) [0..<length (entry_times loc)]
             (msg @ entry_name loc @ ascii '':'' @ NL) of
        Inl e \<Rightarrow> Inl e
      | Inr msg' \<Rightarrow> Inr (msg' @ NL))"

text \<open>
  \<open>build_message\<close>. The module constant \<open>LOCATIONS\<close>, the network and the two
  formatted clock readings of lines 32 and 33 are its parameters.
\<close>

definition build_message :: "location list \<Rightarrow> web \<Rightarrow> pystr \<Rightarrow> pystr \<Rightarrow> error + pystr" where
  "build_message LOCATIONS w now today_str =
     (case for_each (location_body w today_str) LOCATIONS (False, []) of
        Inl e \<Rightarrow> Inl e
      | Inr (will_rain, location_data) \<Rightarrow>
          for_each block_body location_data
            (now @ ascii '' '' @ weather_emoji will_rain @ NL @ NL))"

section \<open>The daily scheduler\<close>

text \<open>
  The four coordinates read from the environment at start-up, and the module constant
  \<open>LOCATIONS\<close> built from them (lines 13 to 22).
\<close>

record config =
  WORK_LATITUDE :: rat
  WORK_LONGITUDE :: rat
  HOME_LATITUDE :: rat
  HOME_LONGITUDE :: rat

definition LOCATIONS :: "config \<Rightarrow> location list" where
  "LOCATIONS cfg =
     [\<lparr>name = ascii ''Work'', lat = WORK_LATITUDE cfg, lon = WORK_LONGITUDE cfg\<rparr>,
      \<lparr>name = ascii ''Home'', lat = HOME_LATITUDE cfg, lon = HOME_LONGITUDE cfg\<rparr>]"

text \<open>
  A \<open>datetime\<close> in the Manila zone: the ordinal of its date (what year, month and day
  determine) and the microseconds since midnight. The zone is at UTC+8 with no
  daylight saving, so two such values compare as their wall-clock fields do, and
  \<open>timedelta(days=1)\<close> adds one to the ordinal.
\<close>

record datetime =
  ordinal :: int
  micros :: int

definition SIX_AM :: int where
  "SIX_AM = 6 * 3600 * 1000000"

definition DAY :: int where
  "DAY = 24 * 3600 * 1000000"

definition PH_OFFSET :: int where
  "PH_OFFSET = 8 * 3600 * 1000000"

definition dt_le :: "datetime \<Rightarrow> datetime \<Rightarrow> bool" where
  "dt_le a b = (ordinal a < ordinal b \<or> (ordinal a = ordinal b \<and> micros a \<le> micros b))"

definition dt_less :: "datetime \<Rightarrow> datetime \<Rightarrow> bool" where
  "dt_less a b = (ordinal a < ordinal b \<or> (ordinal a = ordinal b \<and> micros a < micros b))"

definition add_days :: "datetime \<Rightarrow> int \<Rightarrow> datetime" where
  "add_days d k = d\<lparr>ordinal := ordinal d + k\<rparr>"

text \<open>\<open>astimezone(pytz.utc)\<close>, as microseconds on the UTC time line.\<close>

definition to_utc :: "datetime \<Rightarrow> int" where
  "to_utc d = ordinal d * DAY + micros d - PH_OFFSET"

text \<open>
  Lines 93 to 102: the target of one pass, from the clock reading \<open>now_ph\<close>.
  \<open>localize\<close> is given a naive \<open>datetime\<close> and does not raise, so the
  \<open>except\<close> branch of lines 97 and 98 is never taken.
\<close>

definition next_target :: "datetime \<Rightarrow> datetime" where
  "next_target now_ph =
     (let target_naive = \<lparr>ordinal = ordinal now_ph, micros = SIX_AM\<rparr>;
          target_ph = target_naive
      in if dt_le target_ph now_ph then add_days target_ph 1 else target_ph)"

text \<open>
  What the outside world does during one pass of the loop: the two clock readings of
  lines 93 and 105, the outcome of each \<open>asyncio.sleep\<close> (\<open>None\<close> when it returns,
  the exception otherwise), the network during \<open>build_message\<close> with its two
  formatted clock readings, and the outcome of \<open>bot.send_message\<close>.
\<close>

record cycle =
  now_ph :: datetime
  now_utc :: int
  sleep :: "rat \<Rightarrow> error option"
  net :: web
  now_text :: pystr
  today_text :: pystr
  send_message :: "pystr \<Rightarrow> error option"

text \<open>What a pass does that can be observed; the \<open>print\<close> calls are the log.\<close>

datatype event =
  Log_schedule datetime datetime
  | Slept rat
  | Sent pystr
  | Log_sent
  | Log_failed error
  | Log_stopped

definition delay_seconds :: "cycle \<Rightarrow> rat" where
  "delay_seconds c = of_int (to_utc (next_target (now_ph c)) - now_utc c) / 1000000"

text \<open>
  Lines 93 to 124: one pass of \<open>while True\<close>. The result is the events of the pass
  and the exception that leaves the loop body, if one does. The call of
  \<open>build_message\<close> on line 116 stands before the \<open>try\<close> of line 117.
\<close>

definition iteration :: "location list \<Rightarrow> cycle \<Rightarrow> event list \<times> error option" where
  "iteration LOCS c =
     (let log = [Log_schedule (now_ph c) (next_target (now_ph c))]
      in case (if 0 < delay_seconds c then sleep c (delay_seconds c) else None) of
           Some e \<Rightarrow> (log, Some e)
         | None \<Rightarrow>
             (let log = log @ (if 0 < delay_seconds c then [Slept (delay_seconds c)] else [])
              in case build_message LOCS (net c) (now_text c) (today_text c) of
                   Inl e \<Rightarrow> (log, Some e)
                 | Inr message \<Rightarrow>
                     (case send_message c message of
                        None \<Rightarrow> (log @ [Sent message, Log_sent], None)
                      | Some e \<Rightarrow>
                          if is_Exception e then
                            (case sleep c 10 of
                               None \<Rightarrow> (log @ [Log_failed e, Slept 10], None)
                             | Some e' \<Rightarrow> (log @ [Log_failed e], Some e'))
                          else (log, Some e))))"

text \<open>
  Lines 90 to 128. The loop has no exit of its own, so a run is given the passes the
  world lets it make: \<open>Running\<close> when all of them went by and the loop is still
  going, \<open>Stopped\<close> when \<open>KeyboardInterrupt\<close> reached the outer handler, and
  \<open>Raised\<close> when any other exception left \<open>main\<close>.
\<close>

datatype outcome =
  Running "event list"
  | Stopped "event list"
  | Raised error "event list"

fun main_loop :: "location list \<Rightarrow> cycle list \<Rightarrow> event list \<Rightarrow> outcome" where
  "main_loop LOCS [] tr = Running tr"
| "main_loop LOCS (c # cs) tr =
     (case iteration LOCS c of
        (evs, None) \<Rightarrow> main_loop LOCS cs (tr @ evs)
      | (evs, Some e) \<Rightarrow>
          if e = KeyboardInterrupt then Stopped (tr @ evs @ [Log_stopped])
          else Raised e (tr @ evs))"

definition main :: "config \<Rightarrow> cycle list \<Rightarrow> outcome" where
  "main cfg cs = main_loop (LOCATIONS cfg) cs []"

section \<open>The terms the properties are stated in\<close>

text \<open>
  Nothing below is part of the program. An hourly entry is retained when the two
  tests of lines 53 and 55 pass; \<open>kept\<close> lists the retained positions of a response
  in the order of its time array; \<open>rainy\<close> says that a retained entry of the response has
  a rain probability of at least 30.
\<close>

definition times_of :: "response \<Rightarrow> pystr list" where
  "times_of d = get_list (time (get_hourly d))"

definition temps_of :: "response \<Rightarrow> rat option list" where
  "temps_of d = get_list (temperature_2m (get_hourly d))"

definition rains_of :: "response \<Rightarrow> rat option list" where
  "rains_of d = get_list (precipitation_probability (get_hourly d))"

definition retained :: "pystr \<Rightarrow> pystr \<Rightarrow> bool" where
  "retained today_str t =
     (startswith t today_str \<and>
      (case py_int (slice 11 13 t) of None \<Rightarrow> False | Some hour \<Rightarrow> 8 \<le> hour \<and> hour \<le> 20))"

definition kept :: "pystr \<Rightarrow> response \<Rightarrow> nat list" where
  "kept today_str d = filter (\<lambda>i. retained today_str (times_of d ! i)) [0..<length (times_of d)]"

definition value_at :: "rat option list \<Rightarrow> nat \<Rightarrow> rat option" where
  "value_at vs i = (if i < length vs then vs ! i else None)"

definition rainy :: "pystr \<Rightarrow> response \<Rightarrow> bool" where
  "rainy today_str d =
     (\<exists>i\<in>set (kept today_str d). \<exists>r. value_at (rains_of d) i = Some r \<and> 30 \<le> r)"

text \<open>The response a location received, when its fetch returned one.\<close>

definition data_of :: "web \<Rightarrow> location \<Rightarrow> response" where
  "data_of w loc =
     (case fetch_weather w (lat loc) (lon loc) of Inr d \<Rightarrow> d | Inl _ \<Rightarrow> \<lparr>hourly = None\<rparr>)"

text \<open>One data line, and the block of a location: header, data lines, blank line.\<close>

definition data_line :: "pystr \<Rightarrow> rat option \<Rightarrow> rat option \<Rightarrow> pystr" where
  "data_line t temp rain =
     slice 11 16 t @ ascii '' - '' @ fmt_value temp @ DEGREE @ ascii ''C, '' @
     fmt_value rain @ ascii ''%'' @ NL"

definition line_at :: "response \<Rightarrow> nat \<Rightarrow> pystr" where
  "line_at d i = data_line (times_of d ! i) (value_at (temps_of d) i) (value_at (rains_of d) i)"

definition block :: "pystr \<Rightarrow> location \<Rightarrow> response \<Rightarrow> pystr" where
  "block today_str loc d =
     name loc @ ascii '':'' @ NL @ concat (map (line_at d) (kept today_str d)) @ NL"

definition no_hourly_data :: "response \<Rightarrow> bool" where
  "no_hourly_data d =
     (case hourly d of None \<Rightarrow> True
      | Some h \<Rightarrow> (case time h of None \<Rightarrow> True | Some ts \<Rightarrow> ts = []))"

text \<open>The record that the first loop appends for a location that received \<open>d\<close>.\<close>

definition entry_for :: "pystr \<Rightarrow> location \<Rightarrow> response \<Rightarrow> entry" where
  "entry_for today_str loc d =
     \<lparr>entry_name = name loc,
      entry_times = map (\<lambda>i. times_of d ! i) (kept today_str d),
      entry_temps = map (value_at (temps_of d)) (kept today_str d),
      entry_rains = map (value_at (rains_of d)) (kept today_str d)\<rparr>"

section \<open>Concrete inputs\<close>

text \<open>
  Responses, networks and passes used to run the definitions: the day is
  2024-01-01 (ordinal 738886), the clock reads 05:00 in Manila.
\<close>

definition resp_one :: response where
  "resp_one =
     \<lparr>hourly = Some \<lparr>time = Some [ascii ''2024-01-01T09:00''],
                      temperature_2m = Some [Some 25],
                      precipitation_probability = Some [Some 10]\<rparr>\<rparr>"

definition resp_null_rain :: response where
  "resp_null_rain =
     \<lparr>hourly = Some \<lparr>time = Some [ascii ''2024-01-01T09:00''],
                      temperature_2m = Some [Some 25],
                      precipitation_probability = Some [None]\<rparr>\<rparr>"

definition resp_short_rain :: response where
  "resp_short_rain =
     \<lparr>hourly = Some \<lparr>time = Some [ascii ''2024-01-01T09:00''],
                      temperature_2m = Some [Some 25],
                      precipitation_probability = Some []\<rparr>\<rparr>"

definition resp_null_temp :: response where
  "resp_null_temp =
     \<lparr>hourly = Some \<lparr>time = Some [ascii ''2024-01-01T09:00''],
                      temperature_2m = Some [None],
                      precipitation_probability = Some [Some 10]\<rparr>\<rparr>"

definition resp_day :: response where
  "resp_day =
     \<lparr>hourly = Some \<lparr>time = Some [ascii ''2024-01-01T07:00'', ascii ''2024-01-01T09:00'',
                                   ascii ''2024-01-02T10:00'', ascii ''2024-01-01T20:00''],
                      temperature_2m = Some [Some 20, Some (128 / 5), Some 22, Some (49 / 2)],
                      precipitation_probability = Some [Some 90, Some 35, Some 80, Some 10]\<rparr>\<rparr>"

definition resp_empty :: response where
  "resp_empty = \<lparr>hourly = None\<rparr>"

definition cfg0 :: config where
  "cfg0 = \<lparr>WORK_LATITUDE = 14, WORK_LONGITUDE = 121, HOME_LATITUDE = 15, HOME_LONGITUDE = 120\<rparr>"

definition web_const :: "response \<Rightarrow> web" where
  "web_const d = (\<lambda>la lo. Inr d)"

definition web_down :: web where
  "web_down = (\<lambda>la lo. Inl FetchError)"

definition today0 :: pystr where
  "today0 = ascii ''2024-01-01''"

definition now0 :: pystr where
  "now0 = ascii ''Monday, January 1, 2024''"

definition send_ok :: "pystr \<Rightarrow> error option" where
  "send_ok m = None"

definition send_fails :: "pystr \<Rightarrow> error option" where
  "send_fails m = Some DeliveryError"

definition never_interrupted :: "rat \<Rightarrow> error option" where
  "never_interrupted d = None"

definition a_cycle :: "web \<Rightarrow> (pystr \<Rightarrow> error option) \<Rightarrow> cycle" where
  "a_cycle w s =
     \<lparr>now_ph = \<lparr>ordinal = 738886, micros = 5 * 3600 * 1000000\<rparr>,
      now_utc = to_utc \<lparr>ordinal = 738886, micros = 5 * 3600 * 1000000\<rparr>,
      sleep = never_interrupted,
      net = w,
      now_text = now0,
      today_text = today0,
      send_message = s\<rparr>"

definition msg_one :: pystr where
  "msg_one =
     now0 @ ascii '' '' @ SUN_EMOJI @ NL @ NL @
     ascii ''Work:'' @ NL @ ascii ''09:00 - 25'' @ DEGREE @ ascii ''C, 10%'' @ NL @ NL @
     ascii ''Home:'' @ NL @ ascii ''09:00 - 25'' @ DEGREE @ ascii ''C, 10%'' @ NL @ NL"

definition msg_day :: pystr where
  "msg_day =
     now0 @ ascii '' '' @ RAIN_EMOJI @ NL @ NL @
     ascii ''Work:'' @ NL @
     ascii ''09:00 - 26'' @ DEGREE @ ascii ''C, 35%'' @ NL @
     ascii ''20:00 - 24'' @ DEGREE @ ascii ''C, 10%'' @ NL @ NL @
     ascii ''Home:'' @ NL @
     ascii ''09:00 - 26'' @ DEGREE @ ascii ''C, 35%'' @ NL @
     ascii ''20:00 - 24'' @ DEGREE @ ascii ''C, 10%'' @ NL @ NL"

section \<open>The loops of build\_message\<close>

text \<open>
  What the two loops compute when they do not raise: the first keeps the retained
  positions of each time array in order, the second renders one block for each entry.
\<close>

lemma for_each_append:
  "for_each body (xs @ ys) s =
     (case for_each body xs s of Inl e \<Rightarrow> Inl e | Inr s' \<Rightarrow> for_each body ys s')"
  by (induction xs arbitrary: s) (auto split: sum.splits)

lemma hour_body_skip:
  "\<not> retained today_str (tms ! i) \<Longrightarrow> hour_body today_str tms temps rains i st = Inr st' \<Longrightarrow> st' = st"
  by (auto simp: hour_body_def retained_def Let_def split: prod.splits if_splits option.splits)

lemma hour_body_keep:
  assumes "retained today_str (tms ! i)"
    and "hour_body today_str tms temps rains i (w, ft, fte, fr) = Inr st'"
  shows "\<exists>r. value_at rains i = Some r \<and>
             st' = (w \<or> 30 \<le> r, ft @ [tms ! i], fte @ [value_at temps i], fr @ [value_at rains i])"
  using assms
  by (auto simp: hour_body_def retained_def value_at_def Let_def split: if_splits option.splits)

lemma hour_body_missing_rain:
  assumes "retained today_str (tms ! i)" and "value_at rains i = None"
  shows "hour_body today_str tms temps rains i st =
           Inl (if i < length rains then TypeError else IndexError)"
  using assms
  by (auto simp: hour_body_def retained_def value_at_def Let_def split: prod.splits option.splits)

lemma hour_loop:
  assumes "for_each (hour_body today_str tms temps rains) ixs (w, ft, fte, fr) = Inr (w', ft', fte', fr')"
  shows "ft' = ft @ map (\<lambda>i. tms ! i) (filter (\<lambda>i. retained today_str (tms ! i)) ixs) \<and>
         fte' = fte @ map (value_at temps) (filter (\<lambda>i. retained today_str (tms ! i)) ixs) \<and>
         fr' = fr @ map (value_at rains) (filter (\<lambda>i. retained today_str (tms ! i)) ixs) \<and>
         (\<forall>i\<in>set (filter (\<lambda>i. retained today_str (tms ! i)) ixs). \<exists>r. value_at rains i = Some r) \<and>
         (w' \<longleftrightarrow> w \<or> (\<exists>i\<in>set (filter (\<lambda>i. retained today_str (tms ! i)) ixs).
                          \<exists>r. value_at rains i = Some r \<and> 30 \<le> r))"
  using assms
proof (induction ixs arbitrary: w ft fte fr)
  case Nil
  then show ?case by simp
next
  case (Cons i ixs)
  from Cons.prems obtain st where
    step: "hour_body today_str tms temps rains i (w, ft, fte, fr) = Inr st" and
    rest: "for_each (hour_body today_str tms temps rains) ixs st = Inr (w', ft', fte', fr')"
    by (auto split: sum.splits)
  show ?case
  proof (cases "retained today_str (tms ! i)")
    case False
    from hour_body_skip [OF False step] have "st = (w, ft, fte, fr)" .
    with rest Cons.IH False show ?thesis by simp
  next
    case True
    from hour_body_keep [OF True step] obtain r where
      r: "value_at rains i = Some r" and
      st: "st = (w \<or> 30 \<le> r, ft @ [tms ! i], fte @ [value_at temps i], fr @ [value_at rains i])"
      by blast
    from rest st Cons.IH [of "w \<or> 30 \<le> r" "ft @ [tms ! i]" "fte @ [value_at temps i]" "fr @ [value_at rains i]"]
    show ?thesis using True r by auto
  qed
qed

lemma location_body_Inr:
  assumes "location_body w today_str loc (wr, ld) = Inr st'"
  shows "\<exists>d. fetch_weather w (lat loc) (lon loc) = Inr d \<and>
             st' = (wr \<or> rainy today_str d, ld @ [entry_for today_str loc d]) \<and>
             (\<forall>i\<in>set (kept today_str d). \<exists>r. value_at (rains_of d) i = Some r)"
proof -
  from assms obtain d where d: "fetch_weather w (lat loc) (lon loc) = Inr d"
    by (auto simp: location_body_def split: sum.splits)
  from assms d obtain w' ft fte fr where
    loop: "for_each (hour_body today_str (times_of d) (temps_of d) (rains_of d))
             [0..<length (times_of d)] (wr, [], [], []) = Inr (w', ft, fte, fr)" and
    st: "st' = (w', ld @ [\<lparr>entry_name = name loc, entry_times = ft, entry_temps = fte,
                           entry_rains = fr\<rparr>])"
    by (auto simp: location_body_def Let_def times_of_def temps_of_def rains_of_def
             split: sum.splits prod.splits)
  from hour_loop [OF loop] st show ?thesis
    using d by (simp add: kept_def rainy_def entry_for_def)
qed

lemma data_of_Inr: "fetch_weather w (lat loc) (lon loc) = Inr d \<Longrightarrow> data_of w loc = d"
  by (simp add: data_of_def)

lemma location_loop:
  assumes "for_each (location_body w today_str) LOCS (wr, ld) = Inr (wr', ld')"
  shows "(\<forall>loc\<in>set LOCS. fetch_weather w (lat loc) (lon loc) = Inr (data_of w loc)) \<and>
         ld' = ld @ map (\<lambda>loc. entry_for today_str loc (data_of w loc)) LOCS \<and>
         (wr' \<longleftrightarrow> wr \<or> (\<exists>loc\<in>set LOCS. rainy today_str (data_of w loc))) \<and>
         (\<forall>loc\<in>set LOCS. \<forall>i\<in>set (kept today_str (data_of w loc)).
             \<exists>r. value_at (rains_of (data_of w loc)) i = Some r)"
  using assms
proof (induction LOCS arbitrary: wr ld)
  case Nil
  then show ?case by simp
next
  case (Cons loc LOCS)
  from Cons.prems obtain st where
    step: "location_body w today_str loc (wr, ld) = Inr st" and
    rest: "for_each (location_body w today_str) LOCS st = Inr (wr', ld')"
    by (auto split: sum.splits)
  from location_body_Inr [OF step] obtain d where
    d: "fetch_weather w (lat loc) (lon loc) = Inr d" and
    st: "st = (wr \<or> rainy today_str d, ld @ [entry_for today_str loc d])" and
    pres: "\<forall>i\<in>set (kept today_str d). \<exists>r. value_at (rains_of d) i = Some r"
    by blast
  have dd: "data_of w loc = d" using d by (rule data_of_Inr)
  from rest st Cons.IH [of "wr \<or> rainy today_str d" "ld @ [entry_for today_str loc d]"]
  show ?case using d dd pres by auto
qed

lemma line_loop:
  assumes "\<forall>j\<in>set js. j < length (entry_temps e) \<and> j < length (entry_rains e)"
  shows "for_each (line_body e) js msg =
           Inr (msg @ concat (map (\<lambda>j. data_line (entry_times e ! j) (entry_temps e ! j)
                                           (entry_rains e ! j)) js))"
  using assms
proof (induction js arbitrary: msg)
  case Nil
  then show ?case by simp
next
  case (Cons j js)
  then have "line_body e j msg =
      Inr (msg @ data_line (entry_times e ! j) (entry_temps e ! j) (entry_rains e ! j))"
    by (simp add: line_body_def data_line_def Let_def)
  with Cons show ?case by simp
qed

lemma block_body_entry_for:
  "block_body (entry_for today_str loc d) msg = Inr (msg @ block today_str loc d)"
proof -
  let ?e = "entry_for today_str loc d" and ?ks = "kept today_str d"
  have len: "\<forall>j\<in>set [0..<length (entry_times ?e)].
               j < length (entry_temps ?e) \<and> j < length (entry_rains ?e)"
    by (simp add: entry_for_def)
  have "map (\<lambda>j. data_line (entry_times ?e ! j) (entry_temps ?e ! j) (entry_rains ?e ! j))
            [0..<length (entry_times ?e)] =
        map (\<lambda>j. line_at d (?ks ! j)) [0..<length ?ks]"
    by (simp add: entry_for_def line_at_def)
  also have "\<dots> = map (line_at d) (map (\<lambda>j. ?ks ! j) [0..<length ?ks])"
    by (simp only: map_map o_def)
  also have "\<dots> = map (line_at d) ?ks"
    by (simp only: map_nth)
  finally show ?thesis
    using line_loop [OF len] by (simp add: block_body_def block_def entry_for_def)
qed

lemma block_loop:
  "for_each block_body (map (\<lambda>loc. entry_for today_str loc (f loc)) LOCS) msg =
     Inr (msg @ concat (map (\<lambda>loc. block today_str loc (f loc)) LOCS))"
  by (induction LOCS arbitrary: msg) (simp_all add: block_body_entry_for)

lemma build_message_shape:
  assumes "build_message LOCS w now today_str = Inr msg"
  shows "msg = now @ ascii '' '' @
                weather_emoji (\<exists>loc\<in>set LOCS. rainy today_str (data_of w loc)) @ NL @ NL @
                concat (map (\<lambda>loc. block today_str loc (data_of w loc)) LOCS)"
    and "\<forall>loc\<in>set LOCS. fetch_weather w (lat loc) (lon loc) = Inr (data_of w loc)"
    and "\<forall>loc\<in>set LOCS. \<forall>i\<in>set (kept today_str (data_of w loc)).
             \<exists>r. value_at (rains_of (data_of w loc)) i = Some r"
proof -
  from assms obtain wr ld where
    loop: "for_each (location_body w today_str) LOCS (False, []) = Inr (wr, ld)" and
    out: "for_each block_body ld (now @ ascii '' '' @ weather_emoji wr @ NL @ NL) = Inr msg"
    by (auto simp: build_message_def split: sum.splits prod.splits)
  note L = location_loop [OF loop]
  from L show "\<forall>loc\<in>set LOCS. fetch_weather w (lat loc) (lon loc) = Inr (data_of w loc)"
    by blast
  from L show "\<forall>loc\<in>set LOCS. \<forall>i\<in>set (kept today_str (data_of w loc)).
             \<exists>r. value_at (rains_of (data_of w loc)) i = Some r"
    by blast
  from L have ld: "ld = map (\<lambda>loc. entry_for today_str loc (data_of w loc)) LOCS"
    and wr: "wr \<longleftrightarrow> (\<exists>loc\<in>set LOCS. rainy today_str (data_of w loc))"
    by simp_all
  from out show "msg = now @ ascii '' '' @
                weather_emoji (\<exists>loc\<in>set LOCS. rainy today_str (data_of w loc)) @ NL @ NL @
                concat (map (\<lambda>loc. block today_str loc (data_of w loc)) LOCS)"
    unfolding ld wr block_loop by simp
qed

lemma build_message_at:
  assumes ok: "build_message LOCS w now today_str = Inr msg"
    and pos: "LOCS = A @ loc # B"
    and got: "fetch_weather w (lat loc) (lon loc) = Inr d"
  shows "msg = now @ ascii '' '' @
               weather_emoji (\<exists>l\<in>set LOCS. rainy today_str (data_of w l)) @ NL @ NL @
               concat (map (\<lambda>l. block today_str l (data_of w l)) A) @
               (name loc @ ascii '':'' @ NL @ concat (map (line_at d) (kept today_str d)) @ NL) @
               concat (map (\<lambda>l. block today_str l (data_of w l)) B)"
proof -
  have d: "data_of w loc = d" using got by (rule data_of_Inr)
  have "concat (map (\<lambda>l. block today_str l (data_of w l)) LOCS) =
        concat (map (\<lambda>l. block today_str l (data_of w l)) A) @
        block today_str loc d @
        concat (map (\<lambda>l. block today_str l (data_of w l)) B)"
    unfolding pos by (simp add: d)
  with build_message_shape(1) [OF ok] show ?thesis
    by (simp add: block_def)
qed

lemma first_fetch_fails:
  "fetch_weather w (lat loc) (lon loc) = Inl e \<Longrightarrow> build_message (loc # LOCS) w now today_str = Inl e"
  by (simp add: build_message_def location_body_def)

lemma kept_in_range: "i \<in> set (kept today_str d) \<Longrightarrow> i < length (times_of d)"
  by (simp add: kept_def)

lemma kept_sorted: "sorted_wrt (<) (kept today_str d)"
  by (simp add: kept_def sorted_wrt_filter)

lemma not_retained:
  assumes len: "length today_str = 10"
    and out: "take 10 t \<noteq> today_str \<or>
              (\<exists>hour. py_int (slice 11 13 t) = Some hour \<and> (hour < 8 \<or> 20 < hour))"
  shows "\<not> retained today_str t"
proof
  assume r: "retained today_str t"
  then have "prefix today_str t" by (simp add: retained_def startswith_def)
  then obtain zs where "t = today_str @ zs" by (auto simp: prefix_def)
  with len have "take 10 t = today_str" by simp
  with out r show False by (auto simp: retained_def)
qed

subsection \<open>Responses without hourly data\<close>

lemma no_data_times: "no_hourly_data d \<Longrightarrow> times_of d = []"
  by (auto simp: no_hourly_data_def times_of_def get_hourly_def get_list_def split: option.splits)

lemma kept_no_data: "no_hourly_data d \<Longrightarrow> kept today_str d = []"
  by (simp add: kept_def no_data_times)

lemma location_body_no_data:
  assumes "no_hourly_data d" and "fetch_weather w (lat loc) (lon loc) = Inr d"
  shows "location_body w today_str loc (wr, ld) =
           Inr (wr, ld @ [\<lparr>entry_name = name loc, entry_times = [], entry_temps = [],
                            entry_rains = []\<rparr>])"
  using assms no_data_times [OF assms(1)]
  by (simp add: location_body_def Let_def times_of_def)

lemma block_body_no_lines:
  "block_body \<lparr>entry_name = n, entry_times = [], entry_temps = [], entry_rains = []\<rparr> m =
     Inr (m @ n @ ascii '':'' @ NL @ NL)"
  by (simp add: block_body_def)

lemma location_loop_no_data:
  assumes "\<forall>l\<in>set LOCS. \<exists>d. fetch_weather w (lat l) (lon l) = Inr d \<and> no_hourly_data d"
  shows "for_each (location_body w today_str) LOCS (wr, ld) =
           Inr (wr, ld @ map (\<lambda>l. \<lparr>entry_name = name l, entry_times = [], entry_temps = [],
                                     entry_rains = []\<rparr>) LOCS)"
  using assms
proof (induction LOCS arbitrary: ld)
  case Nil
  then show ?case by simp
next
  case (Cons l LOCS)
  then obtain d where "fetch_weather w (lat l) (lon l) = Inr d" "no_hourly_data d" by auto
  then have "location_body w today_str l (wr, ld) =
           Inr (wr, ld @ [\<lparr>entry_name = name l, entry_times = [], entry_temps = [],
                            entry_rains = []\<rparr>])"
    by (simp add: location_body_no_data)
  with Cons show ?case by simp
qed

lemma block_loop_no_lines:
  "for_each block_body
     (map (\<lambda>l. \<lparr>entry_name = name l, entry_times = [], entry_temps = [], entry_rains = []\<rparr>) LOCS) m =
   Inr (m @ concat (map (\<lambda>l. name l @ ascii '':'' @ NL @ NL) LOCS))"
  by (induction LOCS arbitrary: m) (simp_all add: block_body_no_lines)

lemma build_message_no_data:
  assumes "\<forall>l\<in>set LOCS. \<exists>d. fetch_weather w (lat l) (lon l) = Inr d \<and> no_hourly_data d"
  shows "build_message LOCS w now today_str =
           Inr (now @ ascii '' '' @ SUN_EMOJI @ NL @ NL @
                concat (map (\<lambda>l. name l @ ascii '':'' @ NL @ NL) LOCS))"
  using location_loop_no_data [OF assms, of today_str False "[]"]
  by (simp add: build_message_def block_loop_no_lines weather_emoji_def)

section \<open>Rounding\<close>

text \<open>\<open>py_round\<close> is within a half of its argument, and even when exactly a half away.\<close>

lemma py_round_nearest: "\<bar>of_int (py_round x) - x\<bar> \<le> 1 / 2"
proof -
  have "of_int \<lfloor>x\<rfloor> \<le> x" "x < of_int \<lfloor>x\<rfloor> + 1" by linarith+
  then show ?thesis by (auto simp: py_round_def Let_def)
qed

lemma py_round_tie: "\<bar>of_int (py_round x) - x\<bar> = 1 / 2 \<Longrightarrow> even (py_round x)"
proof -
  assume a: "\<bar>of_int (py_round x) - x\<bar> = 1 / 2"
  have b: "of_int \<lfloor>x\<rfloor> \<le> x" "x < of_int \<lfloor>x\<rfloor> + 1" by linarith+
  show ?thesis
  proof (cases "x - of_int \<lfloor>x\<rfloor> < 1 / 2")
    case True
    with a b show ?thesis by (simp add: py_round_def Let_def)
  next
    case False
    note nlt = this
    show ?thesis
    proof (cases "1 / 2 < x - of_int \<lfloor>x\<rfloor>")
      case True
      with a b nlt show ?thesis by (simp add: py_round_def Let_def)
    next
      case False
      with nlt show ?thesis by (simp add: py_round_def Let_def)
    qed
  qed
qed

lemma py_round_numeral: "py_round (numeral k) = numeral k"
  by (simp add: py_round_def)

lemma py_round_128_5: "py_round (128 / 5) = 26" by code_simp

lemma py_round_49_2: "py_round (49 / 2) = 24" by code_simp

section \<open>The code points of a message\<close>

text \<open>
  Everything \<open>build_message\<close> writes besides the date text, the names, the
  timestamps and the emoji is below 256, so the code point U+1F326 can only come from those.
\<close>

lemma ascii_small: "c \<in> set (ascii s) \<Longrightarrow> c < 256"
proof -
  have "(of_char x :: nat) < 256" for x
  proof -
    have "(of_char x :: nat) = of_char x mod 256" by simp
    also have "\<dots> < 256" by (rule mod_less_divisor) simp
    finally show ?thesis .
  qed
  then show "c \<in> set (ascii s) \<Longrightarrow> c < 256" by (auto simp: ascii_def)
qed

lemma digits_small: "c \<in> set (digits n) \<Longrightarrow> c < 256"
proof (induction n arbitrary: c rule: digits.induct)
  case (1 n)
  show ?case
  proof (cases "n < 10")
    case True
    with "1.prems" show ?thesis by (simp add: digits.simps [of n])
  next
    case False
    with "1.prems" have "c \<in> set (digits (n div 10)) \<or> c = 48 + n mod 10"
      by (auto simp add: digits.simps [of n])
    then show ?thesis
    proof
      assume "c \<in> set (digits (n div 10))"
      with False "1.IH" show ?thesis by simp
    next
      assume "c = 48 + n mod 10"
      moreover have "n mod 10 < 10" by simp
      ultimately show ?thesis by linarith
    qed
  qed
qed

lemma fmt_value_small: "c \<in> set (fmt_value v) \<Longrightarrow> c < 256"
  by (cases v) (auto simp: fmt_value_def str_int_def dest: ascii_small digits_small split: if_splits)

lemma data_line_chars: "c \<in> set (data_line t a b) \<Longrightarrow> c \<in> set t \<or> c < 256"
  by (auto simp: data_line_def slice_def NL_def DEGREE_def
           dest: ascii_small fmt_value_small in_set_takeD in_set_dropD)

lemma block_chars:
  assumes "c \<in> set (block today_str loc d)"
  shows "c \<in> set (name loc) \<or> c < 256 \<or> (\<exists>t\<in>set (times_of d). c \<in> set t)"
proof -
  from assms consider "c \<in> set (name loc)" | "c \<in> set (ascii '':'')" | "c \<in> set NL"
    | i where "i \<in> set (kept today_str d)" "c \<in> set (line_at d i)"
    by (auto simp: block_def)
  then show ?thesis
  proof cases
    case 4
    from 4(1) have "times_of d ! i \<in> set (times_of d)"
      by (simp add: kept_in_range)
    with data_line_chars [of c "times_of d ! i"] 4(2) show ?thesis
      by (auto simp: line_at_def)
  qed (auto simp: NL_def dest: ascii_small)
qed

lemma message_chars:
  assumes "c \<in> set (now @ ascii '' '' @ weather_emoji b @ NL @ NL @
                       concat (map (\<lambda>loc. block today_str loc (f loc)) LOCS))"
  shows "c \<in> set now \<or> c \<in> set (weather_emoji b) \<or> c < 256 \<or>
         (\<exists>loc\<in>set LOCS. c \<in> set (name loc) \<or> (\<exists>t\<in>set (times_of (f loc)). c \<in> set t))"
proof -
  from assms consider "c \<in> set now" | "c \<in> set (ascii '' '')" | "c \<in> set (weather_emoji b)"
    | "c \<in> set NL" | loc where "loc \<in> set LOCS" "c \<in> set (block today_str loc (f loc))"
    by auto
  then show ?thesis
  proof cases
    case 5
    with block_chars [of c today_str loc "f loc"] show ?thesis by blast
  qed (auto simp: NL_def dest: ascii_small)
qed

lemma rain_emoji_iff:
  assumes ok: "build_message LOCS w now today_str = Inr msg"
    and now: "127782 \<notin> set now"
    and names: "\<forall>loc\<in>set LOCS. 127782 \<notin> set (name loc)"
    and stamps: "\<forall>loc\<in>set LOCS. \<forall>t\<in>set (times_of (data_of w loc)). 127782 \<notin> set t"
  shows "sublist RAIN_EMOJI msg \<longleftrightarrow> (\<exists>loc\<in>set LOCS. rainy today_str (data_of w loc))"
    and "\<not> (\<exists>loc\<in>set LOCS. rainy today_str (data_of w loc)) \<Longrightarrow> sublist SUN_EMOJI msg"
proof -
  let ?R = "\<exists>loc\<in>set LOCS. rainy today_str (data_of w loc)"
  let ?rest = "concat (map (\<lambda>loc. block today_str loc (data_of w loc)) LOCS)"
  have shape: "msg = now @ ascii '' '' @ weather_emoji ?R @ NL @ NL @ ?rest"
    using ok by (rule build_message_shape(1))
  have emoji: "sublist (weather_emoji ?R) msg"
  proof -
    have "msg = (now @ ascii '' '') @ weather_emoji ?R @ (NL @ NL @ ?rest)"
      using shape by simp
    then show ?thesis unfolding sublist_def by blast
  qed
  show "sublist RAIN_EMOJI msg \<longleftrightarrow> ?R"
  proof
    assume "sublist RAIN_EMOJI msg"
    then have "set RAIN_EMOJI \<subseteq> set msg" by (rule set_mono_sublist)
    then have "127782 \<in> set msg" by (simp add: RAIN_EMOJI_def)
    with shape have "127782 \<in> set (now @ ascii '' '' @ weather_emoji ?R @ NL @ NL @ ?rest)"
      by simp
    from message_chars [OF this] now names stamps
    have "127782 \<in> set (weather_emoji ?R)" by auto
    then show ?R by (auto simp: weather_emoji_def SUN_EMOJI_def split: if_splits)
  next
    assume ?R
    with emoji show "sublist RAIN_EMOJI msg" by (simp add: weather_emoji_def)
  qed
  show "sublist SUN_EMOJI msg" if "\<not> ?R"
    using emoji that by (simp add: weather_emoji_def)
qed

lemma LOCATIONS_names: "loc \<in> set (LOCATIONS cfg) \<Longrightarrow> 127782 \<notin> set (name loc)"
  by (auto simp: LOCATIONS_def dest!: ascii_small)

section \<open>The target and one pass\<close>

lemma next_target_props:
  "dt_less n (next_target n) \<and> micros (next_target n) = SIX_AM \<and>
   ordinal (next_target n) = (if SIX_AM \<le> micros n then ordinal n + 1 else ordinal n)"
  by (simp add: next_target_def dt_less_def dt_le_def add_days_def Let_def)

lemma next_target_after_wake:
  assumes "dt_le (next_target n) n'" and "dt_less n' (add_days (next_target n) 1)"
  shows "next_target n' = add_days (next_target n) 1"
  using assms
  by (auto simp: next_target_def dt_less_def dt_le_def add_days_def Let_def split: if_splits)

lemma iteration_build_raises:
  assumes "(if 0 < delay_seconds c then sleep c (delay_seconds c) else None) = None"
    and "build_message LOCS (net c) (now_text c) (today_text c) = Inl e"
  shows "iteration LOCS c =
           (Log_schedule (now_ph c) (next_target (now_ph c)) #
              (if 0 < delay_seconds c then [Slept (delay_seconds c)] else []), Some e)"
  using assms by (simp add: iteration_def Let_def)

section \<open>Running the definitions on the concrete inputs\<close>

text \<open>
  \<open>digits\<close> is unfolded only where the size of its argument is known, and
  \<open>upt_conv_Cons\<close> lists the positions of a time array.
\<close>

lemma digits_lt10: "n < 10 \<Longrightarrow> digits n = [48 + n]"
  by (simp add: digits.simps [of n])

lemma digits_ge10: "10 \<le> n \<Longrightarrow> digits n = digits (n div 10) @ [48 + n mod 10]"
  by (simp add: digits.simps [of n])

lemmas ev_defs = build_message_def location_body_def fetch_weather_def get_hourly_def get_list_def
     hour_body_def startswith_def slice_def py_int_def ascii_def strip_def is_space_def is_digit_def digits_val_def Let_def
     block_body_def line_body_def fmt_value_def str_int_def digits_lt10 digits_ge10 weather_emoji_def NL_def DEGREE_def SUN_EMOJI_def
     RAIN_EMOJI_def LOCATIONS_def web_const_def upt_conv_Cons

lemmas sched_defs = main_def iteration_def a_cycle_def delay_seconds_def to_utc_def next_target_def
  dt_le_def dt_less_def add_days_def SIX_AM_def DAY_def PH_OFFSET_def Let_def never_interrupted_def
  send_ok_def send_fails_def is_Exception_def

lemma fetch_web_const: "fetch_weather (web_const d) la lo = Inr d"
  by (simp add: fetch_weather_def web_const_def)

lemma data_of_web_const: "data_of (web_const d) loc = d"
  by (simp add: data_of_def fetch_weather_def web_const_def)

lemma LOCATIONS_split:
  "LOCATIONS cfg = [] @ \<lparr>name = ascii ''Work'', lat = WORK_LATITUDE cfg, lon = WORK_LONGITUDE cfg\<rparr> #
                    [\<lparr>name = ascii ''Home'', lat = HOME_LATITUDE cfg, lon = HOME_LONGITUDE cfg\<rparr>]"
  by (simp add: LOCATIONS_def)

lemma null_rain_raises: "build_message (LOCATIONS cfg) (web_const resp_null_rain) now (ascii ''2024-01-01'') = Inl TypeError"
  by (simp add: ev_defs resp_null_rain_def)

lemma short_rain_raises: "build_message (LOCATIONS cfg) (web_const resp_short_rain) now (ascii ''2024-01-01'') = Inl IndexError"
  by (simp add: ev_defs resp_short_rain_def)

lemma null_temperature_renders: "build_message (LOCATIONS cfg) (web_const resp_null_temp) now (ascii ''2024-01-01'') = 
  Inr (now @ ascii '' '' @ SUN_EMOJI @ NL @ NL @ ascii ''Work:'' @ NL @ ascii ''09:00 - N/A'' @ DEGREE @ ascii ''C, 10%'' @ NL @ NL
     @ ascii ''Home:'' @ NL @ ascii ''09:00 - N/A'' @ DEGREE @ ascii ''C, 10%'' @ NL @ NL)"
  by (simp add: ev_defs resp_null_temp_def py_round_numeral)

lemma build_day:
  "build_message (LOCATIONS cfg) (web_const resp_day) now0 today0 = Inr msg_day"
  by (simp add: ev_defs resp_day_def py_round_128_5 py_round_49_2 py_round_numeral msg_day_def today0_def now0_def)

lemma build_one_any:
  "build_message (LOCATIONS cfg) (web_const resp_one) now (ascii ''2024-01-01'') =
     Inr (now @ ascii '' '' @ SUN_EMOJI @ NL @ NL @
          ascii ''Work:'' @ NL @ ascii ''09:00 - 25'' @ DEGREE @ ascii ''C, 10%'' @ NL @ NL @
          ascii ''Home:'' @ NL @ ascii ''09:00 - 25'' @ DEGREE @ ascii ''C, 10%'' @ NL @ NL)"
  by (simp add: ev_defs resp_one_def py_round_numeral)

lemma build_one:
  "build_message (LOCATIONS cfg) (web_const resp_one) now0 today0 = Inr msg_one"
  by (simp add: build_one_any msg_one_def today0_def)

lemma build_down:
  "build_message (LOCATIONS cfg) web_down now today_str = Inl FetchError"
  by (simp add: LOCATIONS_def first_fetch_fails fetch_weather_def web_down_def)

lemma kept_day: "kept today0 resp_day = [1, 3]"
  by (simp add: kept_def times_of_def retained_def resp_day_def ev_defs today0_def)

lemma times_day:
  "times_of resp_day = [ascii ''2024-01-01T07:00'', ascii ''2024-01-01T09:00'',
                         ascii ''2024-01-02T10:00'', ascii ''2024-01-01T20:00'']"
  by (simp add: times_of_def resp_day_def get_hourly_def get_list_def)

lemma now0_plain: "127782 \<notin> set now0"
  by (simp add: now0_def ascii_def)

lemma stamps_day: "\<forall>t\<in>set (times_of resp_day). 127782 \<notin> set t"
  by (simp add: times_day ascii_def)

section \<open>The scheduler\<close>

subsection \<open>C5: the target of a pass\<close>

text \<open>
  C5: for every clock reading, the computed target is strictly later than the reading,
  is at 06:00 Manila time, and is on the same date when the reading is before 06:00 and on
  the next date otherwise. For a reading with a time of day within the day, the target
  is later on the UTC time line too, by at most 24 hours.
\<close>

theorem next_target_future_six:
  "dt_less now (next_target now) \<and>
   micros (next_target now) = SIX_AM \<and>
   ordinal (next_target now) = (if SIX_AM \<le> micros now then ordinal now + 1 else ordinal now) \<and>
   (0 \<le> micros now \<and> micros now < DAY \<longrightarrow>
      0 < to_utc (next_target now) - to_utc now \<and>
      to_utc (next_target now) - to_utc now \<le> DAY)"
  by (simp add: next_target_def dt_less_def dt_le_def add_days_def to_utc_def Let_def SIX_AM_def DAY_def)

theorem next_target_future_six_witness:
  "next_target \<lparr>ordinal = 738886, micros = 5 * 3600 * 1000000\<rparr> =
     \<lparr>ordinal = 738886, micros = 6 * 3600 * 1000000\<rparr> \<and>
   next_target \<lparr>ordinal = 738886, micros = 6 * 3600 * 1000000\<rparr> =
     \<lparr>ordinal = 738887, micros = 6 * 3600 * 1000000\<rparr> \<and>
   to_utc (next_target \<lparr>ordinal = 738886, micros = 6 * 3600 * 1000000\<rparr>) -
     to_utc \<lparr>ordinal = 738886, micros = 6 * 3600 * 1000000\<rparr> = DAY"
  using next_target_future_six [of "\<lparr>ordinal = 738886, micros = 5 * 3600 * 1000000\<rparr>"]
        next_target_future_six [of "\<lparr>ordinal = 738886, micros = 6 * 3600 * 1000000\<rparr>"]
  by (simp add: sched_defs)

subsection \<open>C6: a failed delivery\<close>

text \<open>
  C6: when \<open>send_message\<close> raises an exception deriving from \<open>Exception\<close>, the
  pass logs it, sleeps 10 seconds and ends normally; the loop goes on with the next pass,
  which starts by computing a target that is strictly later than its own clock reading
  and at 06:00. If that reading is at or after the old target and less than a day after
  it, the new target is the old one plus one day.
\<close>

theorem delivery_failure_continues:
  assumes wait: "(if 0 < delay_seconds c then sleep c (delay_seconds c) else None) = None"
    and built: "build_message LOCS (net c) (now_text c) (today_text c) = Inr message"
    and fail: "send_message c message = Some e" and exc: "is_Exception e"
    and nap: "sleep c 10 = None"
  shows "\<exists>evs. iteration LOCS c = (evs @ [Log_failed e, Slept 10], None) \<and>
           main_loop LOCS (c # c' # cs) tr =
             main_loop LOCS (c' # cs) (tr @ evs @ [Log_failed e, Slept 10]) \<and>
           (\<exists>evs' r. iteration LOCS c' =
               (Log_schedule (now_ph c') (next_target (now_ph c')) # evs', r)) \<and>
           dt_less (now_ph c') (next_target (now_ph c')) \<and>
           micros (next_target (now_ph c')) = SIX_AM \<and>
           (dt_le (next_target (now_ph c)) (now_ph c') \<and>
            dt_less (now_ph c') (add_days (next_target (now_ph c)) 1) \<longrightarrow>
              next_target (now_ph c') = add_days (next_target (now_ph c)) 1)"
proof -
  let ?evs = "Log_schedule (now_ph c) (next_target (now_ph c)) #
                (if 0 < delay_seconds c then [Slept (delay_seconds c)] else [])"
  have it: "iteration LOCS c = (?evs @ [Log_failed e, Slept 10], None)"
    using assms by (simp add: iteration_def Let_def)
  have nxt: "\<exists>evs' r. iteration LOCS c' =
               (Log_schedule (now_ph c') (next_target (now_ph c')) # evs', r)"
    by (auto simp: iteration_def Let_def split: option.splits sum.splits)
  from it have run: "main_loop LOCS (c # c' # cs) tr =
             main_loop LOCS (c' # cs) (tr @ ?evs @ [Log_failed e, Slept 10])"
    by simp
  have day: "dt_le (next_target (now_ph c)) (now_ph c') \<and>
            dt_less (now_ph c') (add_days (next_target (now_ph c)) 1) \<longrightarrow>
              next_target (now_ph c') = add_days (next_target (now_ph c)) 1"
    using next_target_after_wake [of "now_ph c" "now_ph c'"] by blast
  from it run nxt day next_target_props [of "now_ph c'"] show ?thesis by blast
qed

theorem delivery_failure_continues_witness:
  "build_message (LOCATIONS cfg0) (web_const resp_one) now0 today0 = Inr msg_one \<and>
   send_fails msg_one = Some DeliveryError \<and>
   main cfg0 [a_cycle (web_const resp_one) send_fails, a_cycle (web_const resp_one) send_ok] =
     Running
       [Log_schedule \<lparr>ordinal = 738886, micros = 18000000000\<rparr>
                     \<lparr>ordinal = 738886, micros = 21600000000\<rparr>,
        Slept 3600, Log_failed DeliveryError, Slept 10,
        Log_schedule \<lparr>ordinal = 738886, micros = 18000000000\<rparr>
                     \<lparr>ordinal = 738886, micros = 21600000000\<rparr>,
        Slept 3600, Sent msg_one, Log_sent]"
proof -
  let ?c = "a_cycle (web_const resp_one) send_fails"
  let ?c' = "a_cycle (web_const resp_one) send_ok"
  have h1: "(if 0 < delay_seconds ?c then sleep ?c (delay_seconds ?c) else None) = None"
    by (simp add: sched_defs)
  have h2: "build_message (LOCATIONS cfg0) (net ?c) (now_text ?c) (today_text ?c) = Inr msg_one"
    by (simp add: a_cycle_def build_one)
  have h3: "send_message ?c msg_one = Some DeliveryError"
    by (simp add: a_cycle_def send_fails_def)
  have h4: "is_Exception DeliveryError"
    by (simp add: is_Exception_def)
  have h5: "sleep ?c 10 = None"
    by (simp add: a_cycle_def never_interrupted_def)
  from delivery_failure_continues [OF h1 h2 h3 h4 h5, of ?c' "[]" "[]"]
  obtain evs where
    it: "iteration (LOCATIONS cfg0) ?c = (evs @ [Log_failed DeliveryError, Slept 10], None)" and
    run: "main_loop (LOCATIONS cfg0) [?c, ?c'] [] =
            main_loop (LOCATIONS cfg0) [?c'] ([] @ evs @ [Log_failed DeliveryError, Slept 10])"
    by blast
  have evs: "evs = [Log_schedule \<lparr>ordinal = 738886, micros = 18000000000\<rparr>
                     \<lparr>ordinal = 738886, micros = 21600000000\<rparr>, Slept 3600]"
    using it by (simp add: sched_defs build_one)
  have "iteration (LOCATIONS cfg0) ?c' =
          ([Log_schedule \<lparr>ordinal = 738886, micros = 18000000000\<rparr>
                     \<lparr>ordinal = 738886, micros = 21600000000\<rparr>, Slept 3600,
            Sent msg_one, Log_sent], None)"
    by (simp add: sched_defs build_one)
  with run evs have "main cfg0 [?c, ?c'] =
     Running
       [Log_schedule \<lparr>ordinal = 738886, micros = 18000000000\<rparr>
                     \<lparr>ordinal = 738886, micros = 21600000000\<rparr>,
        Slept 3600, Log_failed DeliveryError, Slept 10,
        Log_schedule \<lparr>ordinal = 738886, micros = 18000000000\<rparr>
                     \<lparr>ordinal = 738886, micros = 21600000000\<rparr>,
        Slept 3600, Sent msg_one, Log_sent]"
    by (simp add: main_def)
  with build_one [of cfg0] show ?thesis by (simp add: send_fails_def)
qed

subsection \<open>C1: a failed fetch\<close>

text \<open>
  C1 says that a \<open>FetchError\<close> raised while \<open>build_message\<close> fetches a forecast is
  caught in the loop, logged, and followed by the next pass. Run on two passes, the
  first with the network down: the exception leaves \<open>main\<close> after the first pass, and
  the second pass never starts.
\<close>

theorem fetch_error_ends_main:
  "main cfg0 [a_cycle web_down send_ok, a_cycle (web_const resp_one) send_ok] =
     Raised FetchError
       [Log_schedule \<lparr>ordinal = 738886, micros = 18000000000\<rparr>
                     \<lparr>ordinal = 738886, micros = 21600000000\<rparr>,
        Slept 3600]"
  by (simp add: sched_defs build_down)

text \<open>
  C1, as the code has it: \<open>build_message\<close> is called before the \<open>try\<close> of line
  117, and the outer handler takes \<open>KeyboardInterrupt\<close> only. When the wait was not
  interrupted and \<open>build_message\<close> raises \<open>FetchError\<close>, the pass ends with that
  exception, nothing is logged for it, and \<open>main\<close> ends with it whatever passes
  would have followed.
\<close>

theorem fetch_error_leaves_main:
  assumes "(if 0 < delay_seconds c then sleep c (delay_seconds c) else None) = None"
    and "build_message (LOCATIONS cfg) (net c) (now_text c) (today_text c) = Inl FetchError"
  shows "iteration (LOCATIONS cfg) c =
           (Log_schedule (now_ph c) (next_target (now_ph c)) #
              (if 0 < delay_seconds c then [Slept (delay_seconds c)] else []),
            Some FetchError) \<and>
         main cfg (c # cs) =
           Raised FetchError
             (Log_schedule (now_ph c) (next_target (now_ph c)) #
                (if 0 < delay_seconds c then [Slept (delay_seconds c)] else []))"
  using iteration_build_raises [OF assms] by (simp add: main_def)

theorem fetch_error_leaves_main_witness:
  "build_message (LOCATIONS cfg0) (net (a_cycle web_down send_ok))
     (now_text (a_cycle web_down send_ok)) (today_text (a_cycle web_down send_ok)) = Inl FetchError \<and>
   main cfg0 [a_cycle web_down send_ok, a_cycle (web_const resp_one) send_ok] =
     Raised FetchError
       [Log_schedule \<lparr>ordinal = 738886, micros = 18000000000\<rparr>
                     \<lparr>ordinal = 738886, micros = 21600000000\<rparr>,
        Slept 3600]"
proof -
  let ?c = "a_cycle web_down send_ok"
  have h1: "(if 0 < delay_seconds ?c then sleep ?c (delay_seconds ?c) else None) = None"
    by (simp add: sched_defs)
  have h2: "build_message (LOCATIONS cfg0) (net ?c) (now_text ?c) (today_text ?c) = Inl FetchError"
    by (simp add: a_cycle_def build_down)
  from fetch_error_leaves_main [OF h1 h2, of "[a_cycle (web_const resp_one) send_ok]"] h2
  show ?thesis by (simp add: sched_defs)
qed

section \<open>The message\<close>

subsection \<open>C10: the structure of the message\<close>

text \<open>
  C10: a message that \<open>build_message\<close> returns for the configured locations is the
  date text, a space, the emoji, a blank line, then the block of Work and the block of
  Home, in this order. Each block is the name with a colon, one line for each retained
  position of the location's time array in increasing order of position, and a blank
  line.
\<close>

theorem message_structure:
  assumes ok: "build_message (LOCATIONS cfg) w now today_str = Inr msg"
  shows "\<exists>work home.
           fetch_weather w (WORK_LATITUDE cfg) (WORK_LONGITUDE cfg) = Inr work \<and>
           fetch_weather w (HOME_LATITUDE cfg) (HOME_LONGITUDE cfg) = Inr home \<and>
           msg = now @ ascii '' '' @
                 weather_emoji (rainy today_str work \<or> rainy today_str home) @ NL @ NL @
                 (ascii ''Work:'' @ NL @ concat (map (line_at work) (kept today_str work)) @ NL) @
                 (ascii ''Home:'' @ NL @ concat (map (line_at home) (kept today_str home)) @ NL) \<and>
           sorted_wrt (<) (kept today_str work) \<and>
           sorted_wrt (<) (kept today_str home) \<and>
           (\<forall>i\<in>set (kept today_str work). i < length (times_of work)) \<and>
           (\<forall>i\<in>set (kept today_str home). i < length (times_of home))"
proof -
  let ?W = "\<lparr>name = ascii ''Work'', lat = WORK_LATITUDE cfg, lon = WORK_LONGITUDE cfg\<rparr>"
  let ?H = "\<lparr>name = ascii ''Home'', lat = HOME_LATITUDE cfg, lon = HOME_LONGITUDE cfg\<rparr>"
  let ?work = "data_of w ?W" and ?home = "data_of w ?H"
  from build_message_shape(2) [OF ok]
  have fw: "fetch_weather w (WORK_LATITUDE cfg) (WORK_LONGITUDE cfg) = Inr ?work"
    and fh: "fetch_weather w (HOME_LATITUDE cfg) (HOME_LONGITUDE cfg) = Inr ?home"
    by (simp_all add: LOCATIONS_def)
  from build_message_shape(1) [OF ok]
  have m: "msg = now @ ascii '' '' @
                 weather_emoji (rainy today_str ?work \<or> rainy today_str ?home) @ NL @ NL @
                 (ascii ''Work:'' @ NL @ concat (map (line_at ?work) (kept today_str ?work)) @ NL) @
                 (ascii ''Home:'' @ NL @ concat (map (line_at ?home) (kept today_str ?home)) @ NL)"
    by (simp add: LOCATIONS_def block_def ascii_def)
  have "(\<forall>i\<in>set (kept today_str ?work). i < length (times_of ?work)) \<and>
        (\<forall>i\<in>set (kept today_str ?home). i < length (times_of ?home))"
    by (simp add: kept_in_range)
  with fw fh m kept_sorted [of today_str ?work] kept_sorted [of today_str ?home]
  show ?thesis by blast
qed

theorem message_structure_witness:
  "build_message (LOCATIONS cfg0) (web_const resp_day) now0 today0 = Inr msg_day \<and>
   kept today0 resp_day = [1, 3] \<and>
   msg_day = now0 @ ascii '' '' @ RAIN_EMOJI @ NL @ NL @
             (ascii ''Work:'' @ NL @ concat (map (line_at resp_day) [1, 3]) @ NL) @
             (ascii ''Home:'' @ NL @ concat (map (line_at resp_day) [1, 3]) @ NL)"
proof -
  have ok: "build_message (LOCATIONS cfg0) (web_const resp_day) now0 today0 = Inr msg_day"
    by (rule build_day)
  from message_structure [OF ok] obtain work home where
    fw: "fetch_weather (web_const resp_day) (WORK_LATITUDE cfg0) (WORK_LONGITUDE cfg0) = Inr work" and
    fh: "fetch_weather (web_const resp_day) (HOME_LATITUDE cfg0) (HOME_LONGITUDE cfg0) = Inr home" and
    m: "msg_day = now0 @ ascii '' '' @
                 weather_emoji (rainy today0 work \<or> rainy today0 home) @ NL @ NL @
                 (ascii ''Work:'' @ NL @ concat (map (line_at work) (kept today0 work)) @ NL) @
                 (ascii ''Home:'' @ NL @ concat (map (line_at home) (kept today0 home)) @ NL)"
    by blast
  from fw fh have wh: "work = resp_day" "home = resp_day"
    by (simp_all add: fetch_web_const)
  have r: "rainy today0 resp_day"
  proof -
    have "value_at (rains_of resp_day) (Suc 0) = Some 35"
      by (simp add: value_at_def rains_of_def resp_day_def get_hourly_def get_list_def)
    then show ?thesis by (simp add: rainy_def kept_day)
  qed
  from m have "msg_day = now0 @ ascii '' '' @ RAIN_EMOJI @ NL @ NL @
             (ascii ''Work:'' @ NL @ concat (map (line_at resp_day) [1, 3]) @ NL) @
             (ascii ''Home:'' @ NL @ concat (map (line_at resp_day) [1, 3]) @ NL)"
    unfolding wh kept_day using r by (simp add: weather_emoji_def)
  with ok kept_day show ?thesis by blast
qed

subsection \<open>C4: entries outside the window\<close>

text \<open>
  C4: in a message that \<open>build_message\<close> returns, the data lines of a location's
  block are those of the retained positions of its time array, and a position whose
  timestamp has another date than today's, or an hour below 8 or above 20, is not one
  of them.
\<close>

theorem excluded_entry_has_no_line:
  assumes ok: "build_message LOCS w now today_str = Inr msg"
    and pos: "LOCS = A @ loc # B"
    and got: "fetch_weather w (lat loc) (lon loc) = Inr d"
    and i: "i < length (times_of d)"
    and len: "length today_str = 10"
    and out: "take 10 (times_of d ! i) \<noteq> today_str \<or>
              (\<exists>hour. py_int (slice 11 13 (times_of d ! i)) = Some hour \<and> (hour < 8 \<or> 20 < hour))"
  shows "i \<notin> set (kept today_str d) \<and>
         msg = now @ ascii '' '' @
               weather_emoji (\<exists>l\<in>set LOCS. rainy today_str (data_of w l)) @ NL @ NL @
               concat (map (\<lambda>l. block today_str l (data_of w l)) A) @
               (name loc @ ascii '':'' @ NL @ concat (map (line_at d) (kept today_str d)) @ NL) @
               concat (map (\<lambda>l. block today_str l (data_of w l)) B)"
proof
  from not_retained [OF len out] show "i \<notin> set (kept today_str d)"
    by (simp add: kept_def)
  from ok pos got show "msg = now @ ascii '' '' @
               weather_emoji (\<exists>l\<in>set LOCS. rainy today_str (data_of w l)) @ NL @ NL @
               concat (map (\<lambda>l. block today_str l (data_of w l)) A) @
               (name loc @ ascii '':'' @ NL @ concat (map (line_at d) (kept today_str d)) @ NL) @
               concat (map (\<lambda>l. block today_str l (data_of w l)) B)"
    by (rule build_message_at)
qed

theorem excluded_entry_has_no_line_witness:
  "build_message (LOCATIONS cfg0) (web_const resp_day) now0 today0 = Inr msg_day \<and>
   times_of resp_day ! 2 = ascii ''2024-01-02T10:00'' \<and>
   times_of resp_day ! 0 = ascii ''2024-01-01T07:00'' \<and>
   2 \<notin> set (kept today0 resp_day) \<and> 0 \<notin> set (kept today0 resp_day)"
proof -
  let ?work = "\<lparr>name = ascii ''Work'', lat = WORK_LATITUDE cfg0, lon = WORK_LONGITUDE cfg0\<rparr>"
  have ok: "build_message (LOCATIONS cfg0) (web_const resp_day) now0 today0 = Inr msg_day"
    by (rule build_day)
  have got: "fetch_weather (web_const resp_day) (lat ?work) (lon ?work) = Inr resp_day"
    by (rule fetch_web_const)
  have len: "length today0 = 10"
    by (simp add: today0_def ascii_def)
  have i2: "2 < length (times_of resp_day)" and i0: "0 < length (times_of resp_day)"
    by (simp_all add: times_day)
  have t2: "times_of resp_day ! 2 = ascii ''2024-01-02T10:00''"
    and t0: "times_of resp_day ! 0 = ascii ''2024-01-01T07:00''"
    by (simp_all add: times_day)
  have out2: "take 10 (times_of resp_day ! 2) \<noteq> today0 \<or>
              (\<exists>hour. py_int (slice 11 13 (times_of resp_day ! 2)) = Some hour \<and>
                      (hour < 8 \<or> 20 < hour))"
    by (simp add: t2 today0_def ascii_def)
  have "py_int (slice 11 13 (times_of resp_day ! 0)) = Some 7"
    by (simp add: t0 ev_defs)
  then have out0: "take 10 (times_of resp_day ! 0) \<noteq> today0 \<or>
              (\<exists>hour. py_int (slice 11 13 (times_of resp_day ! 0)) = Some hour \<and>
                      (hour < 8 \<or> 20 < hour))"
    by simp
  from excluded_entry_has_no_line [OF ok LOCATIONS_split got i2 len out2] excluded_entry_has_no_line [OF ok LOCATIONS_split got i0 len out0]
       ok t2 t0
  show ?thesis by blast
qed

subsection \<open>C3: the emoji\<close>

text \<open>
  C3: in a message that \<open>build_message\<close> returns for the configured locations, the
  rain emoji occurs if and only if some retained hour of some location has a rain
  probability of at least 30, and the sun emoji occurs when the rain emoji does not.
  The date text and the timestamps are taken not to contain the code point U+1F326
  themselves.
\<close>

theorem rain_emoji_iff_rainy_hour:
  assumes ok: "build_message (LOCATIONS cfg) w now today_str = Inr msg"
    and now: "127782 \<notin> set now"
    and stamps: "\<forall>loc\<in>set (LOCATIONS cfg). \<forall>t\<in>set (times_of (data_of w loc)). 127782 \<notin> set t"
  shows "(sublist RAIN_EMOJI msg \<longleftrightarrow>
            (\<exists>loc\<in>set (LOCATIONS cfg). \<exists>i\<in>set (kept today_str (data_of w loc)).
                \<exists>r. value_at (rains_of (data_of w loc)) i = Some r \<and> 30 \<le> r)) \<and>
         (\<not> sublist RAIN_EMOJI msg \<longrightarrow> sublist SUN_EMOJI msg)"
proof -
  have names: "\<forall>loc\<in>set (LOCATIONS cfg). 127782 \<notin> set (name loc)"
    by (simp add: LOCATIONS_names)
  note R = rain_emoji_iff [OF ok now names stamps]
  from R(1) have "sublist RAIN_EMOJI msg \<longleftrightarrow>
            (\<exists>loc\<in>set (LOCATIONS cfg). \<exists>i\<in>set (kept today_str (data_of w loc)).
                \<exists>r. value_at (rains_of (data_of w loc)) i = Some r \<and> 30 \<le> r)"
    by (simp add: rainy_def)
  moreover from R have "\<not> sublist RAIN_EMOJI msg \<longrightarrow> sublist SUN_EMOJI msg"
    by blast
  ultimately show ?thesis by blast
qed

theorem rain_emoji_iff_rainy_hour_witness:
  "build_message (LOCATIONS cfg0) (web_const resp_day) now0 today0 = Inr msg_day \<and>
   sublist RAIN_EMOJI msg_day \<and>
   value_at (rains_of resp_day) 1 = Some 35 \<and>
   build_message (LOCATIONS cfg0) (web_const resp_one) now0 today0 = Inr msg_one \<and>
   \<not> sublist RAIN_EMOJI msg_one \<and> sublist SUN_EMOJI msg_one"
proof -
  have day: "build_message (LOCATIONS cfg0) (web_const resp_day) now0 today0 = Inr msg_day"
    by (rule build_day)
  have one: "build_message (LOCATIONS cfg0) (web_const resp_one) now0 today0 = Inr msg_one"
    by (rule build_one)
  have s_day: "\<forall>loc\<in>set (LOCATIONS cfg0). \<forall>t\<in>set (times_of (data_of (web_const resp_day) loc)).
                 127782 \<notin> set t"
    by (simp add: data_of_web_const stamps_day)
  have s_one: "\<forall>loc\<in>set (LOCATIONS cfg0). \<forall>t\<in>set (times_of (data_of (web_const resp_one) loc)).
                 127782 \<notin> set t"
    by (simp add: data_of_web_const times_of_def resp_one_def get_hourly_def get_list_def ascii_def)
  have r35: "value_at (rains_of resp_day) 1 = Some 35"
    by (simp add: value_at_def rains_of_def resp_day_def get_hourly_def get_list_def)
  have in_day: "\<exists>loc\<in>set (LOCATIONS cfg0). \<exists>i\<in>set (kept today0 (data_of (web_const resp_day) loc)).
                \<exists>r. value_at (rains_of (data_of (web_const resp_day) loc)) i = Some r \<and> 30 \<le> r"
  proof -
    have "value_at (rains_of resp_day) (Suc 0) = Some 35 \<and> (30::rat) \<le> 35"
      using r35 by simp
    then show ?thesis
      by (auto simp: data_of_web_const kept_day LOCATIONS_def)
  qed
  have kept_one: "kept today0 resp_one = [0]"
    by (simp add: kept_def times_of_def retained_def resp_one_def ev_defs today0_def)
  have no_one: "\<not> (\<exists>loc\<in>set (LOCATIONS cfg0). \<exists>i\<in>set (kept today0 (data_of (web_const resp_one) loc)).
                \<exists>r. value_at (rains_of (data_of (web_const resp_one) loc)) i = Some r \<and> 30 \<le> r)"
    by (simp add: data_of_web_const kept_one value_at_def rains_of_def resp_one_def get_hourly_def
                  get_list_def)
  from rain_emoji_iff_rainy_hour [OF day now0_plain s_day] in_day
  have a: "sublist RAIN_EMOJI msg_day" by blast
  from rain_emoji_iff_rainy_hour [OF one now0_plain s_one] no_one
  have b: "\<not> sublist RAIN_EMOJI msg_one \<and> sublist SUN_EMOJI msg_one" by blast
  from day one a b r35 show ?thesis by blast
qed

subsection \<open>C9: values are rounded\<close>

text \<open>
  C9: in a message that \<open>build_message\<close> returns, the line of a retained entry whose
  temperature \<open>v\<close> and rain probability \<open>r\<close> are numbers shows
  \<open>round(v)\<close> and \<open>round(r)\<close> as integers: the nearest integer, a tie going to
  the even one. A temperature of 25.6 is shown as 26.
\<close>

theorem values_rendered_rounded:
  assumes ok: "build_message LOCS w now today_str = Inr msg"
    and pos: "LOCS = A @ loc # B"
    and got: "fetch_weather w (lat loc) (lon loc) = Inr d"
    and i: "i \<in> set (kept today_str d)"
    and tv: "value_at (temps_of d) i = Some v"
    and rv: "value_at (rains_of d) i = Some r"
  shows "line_at d i =
           slice 11 16 (times_of d ! i) @ ascii '' - '' @ str_int (py_round v) @ DEGREE @
           ascii ''C, '' @ str_int (py_round r) @ ascii ''%'' @ NL \<and>
         msg = now @ ascii '' '' @
               weather_emoji (\<exists>l\<in>set LOCS. rainy today_str (data_of w l)) @ NL @ NL @
               concat (map (\<lambda>l. block today_str l (data_of w l)) A) @
               (name loc @ ascii '':'' @ NL @ concat (map (line_at d) (kept today_str d)) @ NL) @
               concat (map (\<lambda>l. block today_str l (data_of w l)) B) \<and>
         \<bar>of_int (py_round v) - v\<bar> \<le> 1 / 2 \<and>
         (\<bar>of_int (py_round v) - v\<bar> = 1 / 2 \<longrightarrow> even (py_round v)) \<and>
         \<bar>of_int (py_round r) - r\<bar> \<le> 1 / 2 \<and>
         (\<bar>of_int (py_round r) - r\<bar> = 1 / 2 \<longrightarrow> even (py_round r)) \<and>
         fmt_value (Some (128 / 5)) = ascii ''26''"
proof -
  have line: "line_at d i =
           slice 11 16 (times_of d ! i) @ ascii '' - '' @ str_int (py_round v) @ DEGREE @
           ascii ''C, '' @ str_int (py_round r) @ ascii ''%'' @ NL"
    by (simp add: line_at_def data_line_def fmt_value_def tv rv)
  have ex: "fmt_value (Some (128 / 5)) = ascii ''26''"
    by (simp add: fmt_value_def py_round_128_5 str_int_def digits_lt10 digits_ge10 ascii_def)
  from line build_message_at [OF ok pos got] ex
       py_round_nearest [of v] py_round_nearest [of r] py_round_tie [of v] py_round_tie [of r]
  show ?thesis by blast
qed

theorem values_rendered_rounded_witness:
  "build_message (LOCATIONS cfg0) (web_const resp_day) now0 today0 = Inr msg_day \<and>
   value_at (temps_of resp_day) 1 = Some (128 / 5) \<and>
   value_at (temps_of resp_day) 3 = Some (49 / 2) \<and>
   line_at resp_day 1 = ascii ''09:00 - 26'' @ DEGREE @ ascii ''C, 35%'' @ NL \<and>
   line_at resp_day 3 = ascii ''20:00 - 24'' @ DEGREE @ ascii ''C, 10%'' @ NL"
proof -
  let ?work = "\<lparr>name = ascii ''Work'', lat = WORK_LATITUDE cfg0, lon = WORK_LONGITUDE cfg0\<rparr>"
  have ok: "build_message (LOCATIONS cfg0) (web_const resp_day) now0 today0 = Inr msg_day"
    by (rule build_day)
  have got: "fetch_weather (web_const resp_day) (lat ?work) (lon ?work) = Inr resp_day"
    by (rule fetch_web_const)
  have k1: "1 \<in> set (kept today0 resp_day)" and k3: "3 \<in> set (kept today0 resp_day)"
    by (simp_all add: kept_day)
  have v1: "value_at (temps_of resp_day) 1 = Some (128 / 5)"
    and v3: "value_at (temps_of resp_day) 3 = Some (49 / 2)"
    and r1: "value_at (rains_of resp_day) 1 = Some 35"
    and r3: "value_at (rains_of resp_day) 3 = Some 10"
    by (simp_all add: value_at_def temps_of_def rains_of_def resp_day_def get_hourly_def get_list_def)
  have l1: "line_at resp_day 1 = ascii ''09:00 - 26'' @ DEGREE @ ascii ''C, 35%'' @ NL"
    using values_rendered_rounded [OF ok LOCATIONS_split got k1 v1 r1]
    by (simp add: times_day py_round_128_5 py_round_numeral slice_def ascii_def str_int_def digits_lt10
                  digits_ge10)
  have l3: "line_at resp_day 3 = ascii ''20:00 - 24'' @ DEGREE @ ascii ''C, 10%'' @ NL"
    using values_rendered_rounded [OF ok LOCATIONS_split got k3 v3 r3]
    by (simp add: times_day py_round_49_2 py_round_numeral slice_def ascii_def str_int_def digits_lt10
                  digits_ge10)
  from ok v1 v3 l1 l3 show ?thesis by blast
qed

subsection \<open>C8: a response without hourly data\<close>

text \<open>
  C8: for a location whose response has no \<open>hourly\<close> object, no time array or an
  empty one, the first loop does not raise and records no entries, the block rendered
  for it is the name line and a blank line, that block stands at the location's place in
  any message that \<open>build_message\<close> returns, and when every location is so,
  \<open>build_message\<close> returns the message of header-only blocks.
\<close>

theorem no_hourly_data_block:
  assumes nd: "no_hourly_data d" and got: "fetch_weather w (lat loc) (lon loc) = Inr d"
  shows "location_body w today_str loc (wr, ld) =
           Inr (wr, ld @ [\<lparr>entry_name = name loc, entry_times = [], entry_temps = [],
                            entry_rains = []\<rparr>]) \<and>
         block_body \<lparr>entry_name = name loc, entry_times = [], entry_temps = [],
                     entry_rains = []\<rparr> m = Inr (m @ name loc @ ascii '':'' @ NL @ NL) \<and>
         (build_message LOCS w now today_str = Inr msg \<longrightarrow> LOCS = A @ loc # B \<longrightarrow>
            msg = now @ ascii '' '' @
                  weather_emoji (\<exists>l\<in>set LOCS. rainy today_str (data_of w l)) @ NL @ NL @
                  concat (map (\<lambda>l. block today_str l (data_of w l)) A) @
                  (name loc @ ascii '':'' @ NL @ NL) @
                  concat (map (\<lambda>l. block today_str l (data_of w l)) B)) \<and>
         ((\<forall>l\<in>set LOCS'. \<exists>d'. fetch_weather w (lat l) (lon l) = Inr d' \<and> no_hourly_data d') \<longrightarrow>
            build_message LOCS' w now today_str =
              Inr (now @ ascii '' '' @ SUN_EMOJI @ NL @ NL @
                   concat (map (\<lambda>l. name l @ ascii '':'' @ NL @ NL) LOCS')))"
proof (intro conjI impI)
  show "location_body w today_str loc (wr, ld) =
           Inr (wr, ld @ [\<lparr>entry_name = name loc, entry_times = [], entry_temps = [],
                            entry_rains = []\<rparr>])"
    using nd got by (rule location_body_no_data)
  show "block_body \<lparr>entry_name = name loc, entry_times = [], entry_temps = [],
                     entry_rains = []\<rparr> m = Inr (m @ name loc @ ascii '':'' @ NL @ NL)"
    by (rule block_body_no_lines)
  show "build_message LOCS' w now today_str =
              Inr (now @ ascii '' '' @ SUN_EMOJI @ NL @ NL @
                   concat (map (\<lambda>l. name l @ ascii '':'' @ NL @ NL) LOCS'))"
    if "\<forall>l\<in>set LOCS'. \<exists>d'. fetch_weather w (lat l) (lon l) = Inr d' \<and> no_hourly_data d'"
    using that by (rule build_message_no_data)
  assume "build_message LOCS w now today_str = Inr msg" and "LOCS = A @ loc # B"
  from build_message_at [OF this got] show "msg = now @ ascii '' '' @
                  weather_emoji (\<exists>l\<in>set LOCS. rainy today_str (data_of w l)) @ NL @ NL @
                  concat (map (\<lambda>l. block today_str l (data_of w l)) A) @
                  (name loc @ ascii '':'' @ NL @ NL) @
                  concat (map (\<lambda>l. block today_str l (data_of w l)) B)"
    by (simp add: kept_no_data [OF nd])
qed

theorem no_hourly_data_block_witness:
  "no_hourly_data resp_empty \<and>
   no_hourly_data \<lparr>hourly = Some \<lparr>time = Some [], temperature_2m = Some [Some 1],
                                     precipitation_probability = None\<rparr>\<rparr> \<and>
   build_message (LOCATIONS cfg0) (web_const resp_empty) now0 today0 =
     Inr (now0 @ ascii '' '' @ SUN_EMOJI @ NL @ NL @
          ascii ''Work:'' @ NL @ NL @ ascii ''Home:'' @ NL @ NL)"
proof -
  let ?work = "\<lparr>name = ascii ''Work'', lat = WORK_LATITUDE cfg0, lon = WORK_LONGITUDE cfg0\<rparr>"
  have nd: "no_hourly_data resp_empty"
    by (simp add: no_hourly_data_def resp_empty_def)
  have nd': "no_hourly_data \<lparr>hourly = Some \<lparr>time = Some [], temperature_2m = Some [Some 1],
                                     precipitation_probability = None\<rparr>\<rparr>"
    by (simp add: no_hourly_data_def)
  have got: "fetch_weather (web_const resp_empty) (lat l) (lon l) = Inr resp_empty" for l
    by (rule fetch_web_const)
  have all: "\<forall>l\<in>set (LOCATIONS cfg0).
               \<exists>d'. fetch_weather (web_const resp_empty) (lat l) (lon l) = Inr d' \<and>
                    no_hourly_data d'"
    using nd got by blast
  from no_hourly_data_block [OF nd got, of today0 ?work False "[]" _ _ now0 _ _ _ "LOCATIONS cfg0"]
       all
  have "build_message (LOCATIONS cfg0) (web_const resp_empty) now0 today0 =
          Inr (now0 @ ascii '' '' @ SUN_EMOJI @ NL @ NL @
               concat (map (\<lambda>l. name l @ ascii '':'' @ NL @ NL) (LOCATIONS cfg0)))"
    by blast
  then have "build_message (LOCATIONS cfg0) (web_const resp_empty) now0 today0 =
     Inr (now0 @ ascii '' '' @ SUN_EMOJI @ NL @ NL @
          ascii ''Work:'' @ NL @ NL @ ascii ''Home:'' @ NL @ NL)"
    by (simp add: LOCATIONS_def ascii_def)
  with nd nd' show ?thesis by blast
qed

subsection \<open>C7: the example of the specification\<close>

text \<open>
  C7: with \<open>LOCATIONS\<close> holding the single location Home, which receives the response
  \<open>resp_one\<close>, and the date 2024-01-01, the message is the date line with the sun
  emoji, then the block \<open>Home:\<close> with the one line \<open>09:00 - 25\<degree>C, 10%\<close>; the
  rain emoji does not occur in it. With the two configured locations receiving that
  response, each block has that one line.
\<close>

theorem home_example_message:
  assumes got: "fetch_weather w la lo = Inr resp_one"
    and now: "127782 \<notin> set now"
  shows "build_message [\<lparr>name = ascii ''Home'', lat = la, lon = lo\<rparr>] w now (ascii ''2024-01-01'') =
           Inr (now @ ascii '' '' @ SUN_EMOJI @ NL @ NL @
                ascii ''Home:'' @ NL @ ascii ''09:00 - 25'' @ DEGREE @ ascii ''C, 10%'' @ NL @ NL) \<and>
         \<not> sublist RAIN_EMOJI
             (now @ ascii '' '' @ SUN_EMOJI @ NL @ NL @
              ascii ''Home:'' @ NL @ ascii ''09:00 - 25'' @ DEGREE @ ascii ''C, 10%'' @ NL @ NL) \<and>
         build_message (LOCATIONS cfg) (web_const resp_one) now (ascii ''2024-01-01'') =
           Inr (now @ ascii '' '' @ SUN_EMOJI @ NL @ NL @
                ascii ''Work:'' @ NL @ ascii ''09:00 - 25'' @ DEGREE @ ascii ''C, 10%'' @ NL @ NL @
                ascii ''Home:'' @ NL @ ascii ''09:00 - 25'' @ DEGREE @ ascii ''C, 10%'' @ NL @ NL)"
proof (intro conjI)
  show "build_message (LOCATIONS cfg) (web_const resp_one) now (ascii ''2024-01-01'') =
           Inr (now @ ascii '' '' @ SUN_EMOJI @ NL @ NL @
                ascii ''Work:'' @ NL @ ascii ''09:00 - 25'' @ DEGREE @ ascii ''C, 10%'' @ NL @ NL @
                ascii ''Home:'' @ NL @ ascii ''09:00 - 25'' @ DEGREE @ ascii ''C, 10%'' @ NL @ NL)"
    by (rule build_one_any)
  from got have "w la lo = Inr resp_one" by (simp add: fetch_weather_def)
  then show "build_message [\<lparr>name = ascii ''Home'', lat = la, lon = lo\<rparr>] w now (ascii ''2024-01-01'') =
           Inr (now @ ascii '' '' @ SUN_EMOJI @ NL @ NL @
                ascii ''Home:'' @ NL @ ascii ''09:00 - 25'' @ DEGREE @ ascii ''C, 10%'' @ NL @ NL)"
    by (simp add: ev_defs resp_one_def py_round_numeral)
  show "\<not> sublist RAIN_EMOJI
             (now @ ascii '' '' @ SUN_EMOJI @ NL @ NL @
              ascii ''Home:'' @ NL @ ascii ''09:00 - 25'' @ DEGREE @ ascii ''C, 10%'' @ NL @ NL)"
  proof
    assume "sublist RAIN_EMOJI
             (now @ ascii '' '' @ SUN_EMOJI @ NL @ NL @
              ascii ''Home:'' @ NL @ ascii ''09:00 - 25'' @ DEGREE @ ascii ''C, 10%'' @ NL @ NL)"
    then have "set RAIN_EMOJI \<subseteq> set (now @ ascii '' '' @ SUN_EMOJI @ NL @ NL @
              ascii ''Home:'' @ NL @ ascii ''09:00 - 25'' @ DEGREE @ ascii ''C, 10%'' @ NL @ NL)"
      by (rule set_mono_sublist)
    with now show False
      by (simp add: RAIN_EMOJI_def SUN_EMOJI_def NL_def DEGREE_def ascii_def)
  qed
qed

theorem home_example_message_witness:
  "fetch_weather (web_const resp_one) 15 120 = Inr resp_one \<and>
   build_message [\<lparr>name = ascii ''Home'', lat = 15, lon = 120\<rparr>] (web_const resp_one) now0
     (ascii ''2024-01-01'') =
     Inr (now0 @ ascii '' '' @ SUN_EMOJI @ NL @ NL @
          ascii ''Home:'' @ NL @ ascii ''09:00 - 25'' @ DEGREE @ ascii ''C, 10%'' @ NL @ NL)"
proof -
  have got: "fetch_weather (web_const resp_one) 15 120 = Inr resp_one"
    by (rule fetch_web_const)
  from home_example_message [OF got now0_plain] got show ?thesis by blast
qed

subsection \<open>C2: a missing rain probability\<close>

text \<open>
  C2 says that a missing temperature or rain probability of a retained entry is shown
  as \<open>N/A\<close> and never makes \<open>build_message\<close> raise. For a rain probability the
  code does otherwise: with one retained entry whose rain probability is \<open>null\<close>,
  line 59 raises \<open>TypeError\<close>, and with a rain array shorter than the time array it
  raises \<open>IndexError\<close>.
\<close>

theorem missing_rain_raises:
  "build_message (LOCATIONS cfg) (web_const resp_null_rain) now (ascii ''2024-01-01'') = Inl TypeError \<and>
   build_message (LOCATIONS cfg) (web_const resp_short_rain) now (ascii ''2024-01-01'') = Inl IndexError"
  by (simp add: null_rain_raises short_rain_raises)

end
